theory Spec2Isabelle
  imports Main
begin

section \<open>Data model\<close>

text \<open>
  JavaScript strings are modelled as \<^typ>\<open>string\<close>; a \<^typ>\<open>char\<close> stands for one code
  unit in the Latin-1 range. Byte sizes are natural numbers (\<open>File.size\<close> is a
  non-negative integer). A rejected promise or a thrown exception is a value of
  \<open>exn\<close>; the reply of an external collaborator (the file reader, the document
  store, the clipboard, the confirmation dialog) is a parameter of the handler
  that awaits it, of type \<open>exn + 'a\<close> with \<open>Inl\<close> the rejection.
\<close>

datatype exn = Exn string

text \<open>The browser's \<open>File\<close>: the three properties the upload handler reads.\<close>

record File =
  file_name :: string
  file_size :: nat
  file_type :: string

text \<open>
  \<open>serverTimestamp()\<close> is a sentinel that the store replaces by the server's
  time; a stored document holds a \<open>Timestamp\<close>.
\<close>

datatype FieldValue = ServerTimestamp

type_synonym Timestamp = nat

text \<open>
  \<open>Omit<UploadedFile, 'id'>\<close>, the data of one document of the collection
  \<open>files\<close>, and \<open>UploadedFile\<close>, which adds the document id. The type of
  \<open>createdAt\<close> is a parameter: the sentinel in the payload of \<open>addDoc\<close>, a
  \<open>Timestamp\<close> in a document read back.
\<close>

record 't FileData =
  displayName :: string
  dataUrl :: string
  size_f :: nat
  type_f :: string
  createdAt :: 't

record 't UploadedFile = "'t FileData" +
  id_f :: string

text \<open>One element of \<open>filesSnapshot.docs\<close>: \<open>doc.id\<close> and \<open>doc.data()\<close>.\<close>

record DocSnapshot =
  doc_id :: string
  doc_data :: "Timestamp FileData"

text \<open>\<open>{ ...doc.data(), id: doc.id }\<close>\<close>

definition with_id :: "DocSnapshot \<Rightarrow> Timestamp UploadedFile" where
  "with_id d =
     \<lparr>displayName = displayName (doc_data d), dataUrl = dataUrl (doc_data d),
      size_f = size_f (doc_data d), type_f = type_f (doc_data d),
      createdAt = createdAt (doc_data d), id_f = doc_id d\<rparr>"

section \<open>The Uploader component\<close>

text \<open>The component's \<open>useState\<close> cells.\<close>

record Uploader =
  files :: "Timestamp UploadedFile list"
  isDragging :: bool
  isUploading :: bool
  isLoading :: bool
  copiedUrlId :: "string option"
  editingFile :: "Timestamp UploadedFile option"
  newDisplayName :: string

text \<open>
  The texts of the \<open>alert\<close> calls, by handler:
  \<^item> \<open>InvalidFormat\<close>: "Formato de archivo no valido. Por favor sube un SVG, JPG, PNG, o PDF."
  \<^item> \<open>TooLarge\<close>: "El archivo es demasiado grande. El limite es de 750 KB ..."
  \<^item> \<open>UploadFailed\<close>: "Hubo un error al subir el archivo."
  \<^item> \<open>DeleteFailed\<close>: "Hubo un error al eliminar el archivo."
  \<^item> \<open>RenameFailed\<close>: "Hubo un error al cambiar el nombre."
\<close>

datatype alert_msg = InvalidFormat | TooLarge | UploadFailed | DeleteFailed | RenameFailed

text \<open>
  Everything a handler does, in the order it does it: the state setters it calls
  and the calls it makes to the outside (dialogs, the file reader, the store).
\<close>

datatype effect =
    SetFiles "Timestamp UploadedFile list"
  | SetIsUploading bool
  | SetIsLoading bool
  | SetEditingFile "Timestamp UploadedFile option"
  | SetNewDisplayName string
  | SetCopiedUrlId "string option"
  | Alert alert_msg
  | ConsoleError
  | Confirm string
  | ReadAsDataURL File
  | AddDoc "FieldValue FileData"
  | GetDocs
  | DeleteDoc string
  | UpdateDoc string string
  | GetDoc string
  | WriteText string
  | SetTimeout nat

fun apply_effect :: "effect \<Rightarrow> Uploader \<Rightarrow> Uploader" where
  "apply_effect (SetFiles fs) s = s\<lparr>files := fs\<rparr>"
| "apply_effect (SetIsUploading b) s = s\<lparr>isUploading := b\<rparr>"
| "apply_effect (SetIsLoading b) s = s\<lparr>isLoading := b\<rparr>"
| "apply_effect (SetEditingFile e) s = s\<lparr>editingFile := e\<rparr>"
| "apply_effect (SetNewDisplayName n) s = s\<lparr>newDisplayName := n\<rparr>"
| "apply_effect (SetCopiedUrlId c) s = s\<lparr>copiedUrlId := c\<rparr>"
| "apply_effect _ s = s"

text \<open>A run: the component's state and the log of effects so far.\<close>

type_synonym run = "Uploader \<times> effect list"

definition emit :: "effect \<Rightarrow> run \<Rightarrow> run" where
  "emit e w = (apply_effect e (fst w), snd w @ [e])"

definition acceptedFileTypes :: "string list" where
  "acceptedFileTypes = [''image/svg+xml'', ''image/jpeg'', ''image/png'', ''application/pdf'']"

definition MAX_FILE_SIZE_BYTES :: nat where
  "MAX_FILE_SIZE_BYTES = 750 * 1024"

text \<open>
  \<open>fetchFiles\<close>: the query \<open>orderBy("createdAt", "desc")\<close> is answered by the
  store; its reply \<open>docs\<close> replaces the list. The function has no \<open>try\<close>: a
  rejection of \<open>getDocs\<close> leaves through the caller, after \<open>setIsLoading(true)\<close>.
  The result says whether it threw.
\<close>

definition fetchFiles :: "exn + DocSnapshot list \<Rightarrow> run \<Rightarrow> exn option \<times> run" where
  "fetchFiles docsRes w =
     (let w1 = emit (SetIsLoading True) w;
          w2 = emit GetDocs w1
      in case docsRes of
           Inl e \<Rightarrow> (Some e, w2)
         | Inr docs \<Rightarrow>
             (None, emit (SetIsLoading False) (emit (SetFiles (map with_id docs)) w2)))"

text \<open>The \<open>try\<close> block of \<open>handleUpload\<close>.\<close>

definition upload_try ::
  "exn + string \<Rightarrow> exn + string \<Rightarrow> exn + DocSnapshot list \<Rightarrow> File \<Rightarrow> run \<Rightarrow> exn option \<times> run"
where
  "upload_try readRes addRes docsRes selectedFile w =
     (let w1 = emit (ReadAsDataURL selectedFile) w
      in case readRes of
           Inl e \<Rightarrow> (Some e, w1)
         | Inr url \<Rightarrow>
             (let w2 = emit (AddDoc \<lparr>displayName = file_name selectedFile, dataUrl = url,
                                     size_f = file_size selectedFile,
                                     type_f = file_type selectedFile,
                                     createdAt = ServerTimestamp\<rparr>) w1
              in case addRes of
                   Inl e \<Rightarrow> (Some e, w2)
                 | Inr newId \<Rightarrow> fetchFiles docsRes w2))"

text \<open>
  \<open>handleUpload\<close>. \<open>readRes\<close>, \<open>addRes\<close> and \<open>docsRes\<close> are the replies of
  \<open>fileToDataURL\<close>, \<open>addDoc\<close> (the new id) and \<open>getDocs\<close>. A null file returns at
  once.
\<close>

definition handleUpload ::
  "exn + string \<Rightarrow> exn + string \<Rightarrow> exn + DocSnapshot list \<Rightarrow> File option \<Rightarrow> run \<Rightarrow> run"
where
  "handleUpload readRes addRes docsRes selectedFile w =
     (case selectedFile of
        None \<Rightarrow> w
      | Some f \<Rightarrow>
          if \<not> List.member acceptedFileTypes (file_type f) then emit (Alert InvalidFormat) w
          else if file_size f > MAX_FILE_SIZE_BYTES then emit (Alert TooLarge) w
          else
            (let w1 = emit (SetIsUploading True) w;
                 (thrown, w2) = upload_try readRes addRes docsRes f w1;
                 w3 = (case thrown of
                         None \<Rightarrow> w2
                       | Some e \<Rightarrow> emit (Alert UploadFailed) (emit ConsoleError w2))
             in emit (SetIsUploading False) w3))"

subsection \<open>Delete\<close>

text \<open>
  \<open>handleDelete\<close>. \<open>confirmed\<close> is the answer of \<open>window.confirm\<close>, \<open>delRes\<close> the
  reply of \<open>deleteDoc\<close>.
\<close>

definition handleDelete :: "bool \<Rightarrow> exn + unit \<Rightarrow> Timestamp UploadedFile \<Rightarrow> run \<Rightarrow> run" where
  "handleDelete confirmed delRes fileToDelete w =
     (let w0 = emit (Confirm (displayName fileToDelete)) w
      in if \<not> confirmed then w0
         else
           (let w1 = emit (DeleteDoc (id_f fileToDelete)) w0
            in case delRes of
                 Inr _ \<Rightarrow>
                   emit (SetFiles (filter (\<lambda>f. id_f f \<noteq> id_f fileToDelete) (files (fst w1)))) w1
               | Inl e \<Rightarrow> emit (Alert DeleteFailed) (emit ConsoleError w1)))"

subsection \<open>Rename\<close>

text \<open>
  \<open>String.prototype.trim\<close> removes white space and line terminators at both
  ends; in the Latin-1 range these are TAB, LF, VT, FF, CR, SPACE and NBSP.
\<close>

definition is_ws :: "char \<Rightarrow> bool" where
  "is_ws c = List.member [CHR 0x09, CHR 0x0A, CHR 0x0B, CHR 0x0C, CHR 0x0D, CHR 0x20, CHR 0xA0] c"

definition trim :: "string \<Rightarrow> string" where
  "trim s = rev (dropWhile is_ws (rev (dropWhile is_ws s)))"

definition handleEdit :: "Timestamp UploadedFile \<Rightarrow> run \<Rightarrow> run" where
  "handleEdit f w = emit (SetNewDisplayName (displayName f)) (emit (SetEditingFile (Some f)) w)"

definition handleCancelEdit :: "run \<Rightarrow> run" where
  "handleCancelEdit w = emit (SetNewDisplayName []) (emit (SetEditingFile None) w)"

text \<open>
  \<open>handleSaveEdit\<close>, the handler of both Enter and \<open>onBlur\<close>. \<open>updRes\<close> is the
  reply of \<open>updateDoc\<close>. The \<open>finally\<close> block belongs to the \<open>try\<close> inside the
  \<open>if\<close>: when the condition fails nothing at all is done.
\<close>

definition handleSaveEdit :: "exn + unit \<Rightarrow> run \<Rightarrow> run" where
  "handleSaveEdit updRes w =
     (case editingFile (fst w) of
        None \<Rightarrow> w
      | Some ef \<Rightarrow>
          if trim (newDisplayName (fst w)) \<noteq> [] then
            (let nm = trim (newDisplayName (fst w));
                 w1 = emit (UpdateDoc (id_f ef) nm) w;
                 w2 = (case updRes of
                         Inr _ \<Rightarrow>
                           emit (SetFiles (map (\<lambda>f. if id_f f = id_f ef
                                                      then f\<lparr>displayName := nm\<rparr> else f)
                                               (files (fst w1)))) w1
                       | Inl e \<Rightarrow> emit (Alert RenameFailed) (emit ConsoleError w1))
             in emit (SetNewDisplayName []) (emit (SetEditingFile None) w2))
          else w)"

text \<open>
  The handlers of the edit input: \<open>onKeyDown\<close> (\<open>key\<close> is \<open>e.key\<close>) and
  \<open>onBlur\<close>.
\<close>

definition onKeyDown :: "string \<Rightarrow> exn + unit \<Rightarrow> run \<Rightarrow> run" where
  "onKeyDown key updRes w =
     (let w1 = (if key = ''Enter'' then handleSaveEdit updRes w else w)
      in if key = ''Escape'' then handleCancelEdit w1 else w1)"

definition onBlur :: "exn + unit \<Rightarrow> run \<Rightarrow> run" where
  "onBlur updRes w = handleSaveEdit updRes w"

subsection \<open>Share link\<close>

text \<open>
  \<open>handleCopyUrl\<close>. \<open>writeRes\<close> is the reply of \<open>navigator.clipboard.writeText\<close>;
  the callback of \<open>then\<close> runs only when it resolves. \<open>SetTimeout 2000\<close> records
  \<open>setTimeout(() => setCopiedUrlId(null), 2000)\<close>; the handler keeps no timer id
  and nothing in the source calls \<open>clearTimeout\<close>.
\<close>

definition handleCopyUrl ::
  "string \<Rightarrow> string \<Rightarrow> exn + unit \<Rightarrow> Timestamp UploadedFile \<Rightarrow> run \<Rightarrow> run"
where
  "handleCopyUrl origin pathname writeRes f w =
     (let urlToCopy = origin @ pathname @ ''#/view/'' @ id_f f;
          w1 = emit (WriteText urlToCopy) w
      in case writeRes of
           Inl e \<Rightarrow> w1
         | Inr _ \<Rightarrow> emit (SetTimeout 2000) (emit (SetCopiedUrlId (Some (id_f f))) w1))"

text \<open>
  The browser's timer queue, as far as this component uses it: the clock in
  milliseconds and the due times of the pending timeouts. Every timeout of the
  component has the same callback, \<open>setCopiedUrlId(null)\<close>.
\<close>

record Timers =
  clock :: nat
  pending :: "nat list"

text \<open>A click on a record's copy button whose clipboard write resolves at the current time.\<close>

definition copy_click ::
  "string \<Rightarrow> string \<Rightarrow> exn + unit \<Rightarrow> Timestamp UploadedFile \<Rightarrow> run \<times> Timers \<Rightarrow> run \<times> Timers"
where
  "copy_click origin pathname writeRes f wt =
     (let w' = handleCopyUrl origin pathname writeRes f (fst wt);
          new = drop (length (snd (fst wt))) (snd w');
          delays = concat (map (\<lambda>e. case e of SetTimeout d \<Rightarrow> [d] | _ \<Rightarrow> []) new)
      in (w', (snd wt)\<lparr>pending := pending (snd wt) @ map (\<lambda>d. clock (snd wt) + d) delays\<rparr>))"

text \<open>
  \<open>d\<close> milliseconds pass with no user action: the timeouts that fall due run
  their callback and leave the queue.
\<close>

definition elapse :: "nat \<Rightarrow> run \<times> Timers \<Rightarrow> run \<times> Timers" where
  "elapse d wt =
     (let t = clock (snd wt) + d;
          due = filter (\<lambda>x. x \<le> t) (pending (snd wt));
          w' = fold (\<lambda>_. emit (SetCopiedUrlId None)) due (fst wt)
      in (w', (snd wt)\<lparr>clock := t, pending := filter (\<lambda>x. \<not> x \<le> t) (pending (snd wt))\<rparr>))"

text \<open>The label of a record's copy button: \<open>copiedUrlId === file.id\<close>.\<close>

datatype copy_label = Copiado | CopiarURL

definition copy_button :: "Uploader \<Rightarrow> Timestamp UploadedFile \<Rightarrow> copy_label" where
  "copy_button s f = (if copiedUrlId s = Some (id_f f) then Copiado else CopiarURL)"

section \<open>The FileViewer component\<close>

record FileViewer =
  file_v :: "Timestamp FileData option"
  error_v :: "string option"
  isLoading_v :: bool

definition FileViewer_init :: FileViewer where
  "FileViewer_init = \<lparr>file_v = None, error_v = None, isLoading_v = True\<rparr>"

text \<open>
  The effect of mounting: \<open>fetchFile\<close>. \<open>getRes\<close> is the reply of \<open>getDoc\<close>:
  a rejection, or the snapshot, \<open>None\<close> when \<open>docSnap.exists()\<close> is false.
  The effect depends on \<open>[fileId]\<close>, and \<open>App\<close> renders the component without a
  key: when the hash changes from one id to another the component keeps its
  state and the effect runs again, on that state. The effect sets \<open>file\<close> or
  \<open>error\<close> and then \<open>isLoading\<close>; it resets nothing.
\<close>

definition fetchFile ::
  "exn + Timestamp FileData option \<Rightarrow> string \<Rightarrow> FileViewer \<times> effect list \<Rightarrow> FileViewer \<times> effect list"
where
  "fetchFile getRes fileId v =
     (let s = fst v;
          log1 = snd v @ [GetDoc fileId];
          v2 = (case getRes of
                  Inr (Some d) \<Rightarrow> (s\<lparr>file_v := Some d\<rparr>, log1)
                | Inr None \<Rightarrow> (s\<lparr>error_v := Some ''El archivo no fue encontrado.''\<rparr>, log1)
                | Inl e \<Rightarrow>
                    (s\<lparr>error_v := Some ''Hubo un error al cargar el archivo.''\<rparr>,
                     log1 @ [ConsoleError]))
      in ((fst v2)\<lparr>isLoading_v := False\<rparr>, snd v2))"

text \<open>\<open>String.prototype.startsWith\<close>\<close>

definition startsWith :: "string \<Rightarrow> string \<Rightarrow> bool" where
  "startsWith s p = (take (length p) s = p)"

text \<open>
  What the component returns: the spinner, the error screen (message and the
  target of its link), an \<open>img\<close> or an \<open>iframe\<close> (source and title), or \<open>null\<close>.
\<close>

datatype element =
    SpinnerScreen
  | ErrorScreen string string
  | Img string string
  | Iframe string string
  | Null

text \<open>A \<open>string | null\<close> is truthy when it is a non-empty string.\<close>

definition truthy :: "string option \<Rightarrow> bool" where
  "truthy x = (case x of None \<Rightarrow> False | Some s \<Rightarrow> s \<noteq> [])"

definition FileViewer_render :: "FileViewer \<Rightarrow> element" where
  "FileViewer_render s =
     (if isLoading_v s then SpinnerScreen
      else if truthy (error_v s) then ErrorScreen (the (error_v s)) ''/''
      else case file_v s of
             Some f \<Rightarrow>
               if startsWith (type_f f) ''image/'' then Img (dataUrl f) (displayName f)
               else if type_f f = ''application/pdf'' then Iframe (dataUrl f) (displayName f)
               else Null
           | None \<Rightarrow> Null)"

section \<open>The router\<close>

record Route =
  path :: string
  route_id :: "string option"

text \<open>
  \<open>String.prototype.split\<close> with a one-character separator: the pieces between
  the separators, \<open>[""]\<close> for the empty string. The result is never empty, so
  the last case of the inner \<open>case\<close> is not reached.
\<close>

fun split_js :: "char \<Rightarrow> string \<Rightarrow> string list" where
  "split_js sep [] = [[]]"
| "split_js sep (c # cs) =
     (if c = sep then [] # split_js sep cs
      else case split_js sep cs of
             p # ps \<Rightarrow> (c # p) # ps
           | [] \<Rightarrow> [[c]])"

text \<open>\<open>parts[i]\<close>: \<open>undefined\<close> beyond the end.\<close>

definition at_js :: "'a list \<Rightarrow> nat \<Rightarrow> 'a option" where
  "at_js xs i = (if i < length xs then Some (xs ! i) else None)"

text \<open>
  \<open>handleHashChange\<close>. \<open>location_hash\<close> is \<open>window.location.hash\<close>: empty, or
  \<open>#\<close> followed by the fragment; \<open>slice(1)\<close> drops its first character. The
  previous route is overwritten.
\<close>

definition handleHashChange :: "string \<Rightarrow> Route \<Rightarrow> Route" where
  "handleHashChange location_hash route =
     (let hash = drop 1 location_hash;
          parts = filter (\<lambda>p. p \<noteq> []) (split_js CHR ''/'' hash)
      in if at_js parts 0 = Some ''view'' \<and> truthy (at_js parts 1)
         then \<lparr>path = ''view'', route_id = at_js parts 1\<rparr>
         else \<lparr>path = ''home'', route_id = None\<rparr>)"

datatype mounted = MountFileViewer string | MountUploader

definition App_render :: "Route \<Rightarrow> mounted" where
  "App_render route =
     (if path route = ''view'' \<and> truthy (route_id route)
      then MountFileViewer (the (route_id route))
      else MountUploader)"

section \<open>Auxiliary notions for the statements\<close>

text \<open>The effects that are calls to the document store.\<close>

fun is_store_call :: "effect \<Rightarrow> bool" where
  "is_store_call (AddDoc _) = True"
| "is_store_call GetDocs = True"
| "is_store_call (DeleteDoc _) = True"
| "is_store_call (UpdateDoc _ _) = True"
| "is_store_call (GetDoc _) = True"
| "is_store_call _ = False"

text \<open>Sample values for the concrete instances.\<close>

definition photo :: File where
  "photo = \<lparr>file_name = ''photo.png'', file_size = 204800, file_type = ''image/png''\<rparr>"

definition empty_uploader :: Uploader where
  "empty_uploader = \<lparr>files = [], isDragging = False, isUploading = False, isLoading = False,
       copiedUrlId = None, editingFile = None, newDisplayName = []\<rparr>"

definition recordA :: "Timestamp UploadedFile" where
  "recordA = \<lparr>displayName = ''photo.png'', dataUrl = ''data:image/png;base64,AAAA'',
              size_f = 204800, type_f = ''image/png'', createdAt = 7, id_f = ''idA''\<rparr>"

definition recordB :: "Timestamp UploadedFile" where
  "recordB = \<lparr>displayName = ''manual.pdf'', dataUrl = ''data:application/pdf;base64,BBBB'',
              size_f = 512000, type_f = ''application/pdf'', createdAt = 5, id_f = ''idB''\<rparr>"

definition listed :: Uploader where
  "listed = empty_uploader\<lparr>files := [recordA, recordB]\<rparr>"

definition idle :: Timers where
  "idle = \<lparr>clock = 0, pending = []\<rparr>"


definition logo :: "Timestamp FileData" where
  "logo = \<lparr>displayName = ''logo.svg'', dataUrl = ''data:image/svg+xml;base64,DDDD'',
           size_f = 900, type_f = ''image/svg+xml'', createdAt = 9\<rparr>"

section \<open>Upload\<close>

lemma emit_pair: "emit e (s, log) = (apply_effect e s, log @ [e])"
  by (simp add: emit_def)

lemma handleUpload_null: "handleUpload readRes addRes docsRes None w = w"
  by (simp add: handleUpload_def)

lemma handleUpload_invalid_type:
  "file_type f \<notin> set acceptedFileTypes \<Longrightarrow>
   handleUpload readRes addRes docsRes (Some f) (s, log) = (s, log @ [Alert InvalidFormat])"
  by (simp add: handleUpload_def emit_pair)

lemma handleUpload_too_large:
  "file_type f \<in> set acceptedFileTypes \<Longrightarrow> MAX_FILE_SIZE_BYTES < file_size f \<Longrightarrow>
   handleUpload readRes addRes docsRes (Some f) (s, log) = (s, log @ [Alert TooLarge])"
  by (simp add: handleUpload_def emit_pair)

lemma handleUpload_success:
  assumes "file_type f \<in> set acceptedFileTypes" "file_size f \<le> MAX_FILE_SIZE_BYTES"
  shows "handleUpload (Inr url) (Inr newId) (Inr docs) (Some f) (s, log) =
     (s\<lparr>files := map with_id docs, isUploading := False, isLoading := False\<rparr>,
      log @ [SetIsUploading True, ReadAsDataURL f,
             AddDoc \<lparr>displayName = file_name f, dataUrl = url, size_f = file_size f,
                     type_f = file_type f, createdAt = ServerTimestamp\<rparr>,
             SetIsLoading True, GetDocs, SetFiles (map with_id docs), SetIsLoading False,
             SetIsUploading False])"
  using assms by (simp add: handleUpload_def upload_try_def fetchFiles_def emit_pair)

lemma handleUpload_read_fails:
  assumes "file_type f \<in> set acceptedFileTypes" "file_size f \<le> MAX_FILE_SIZE_BYTES"
  shows "handleUpload (Inl e) addRes docsRes (Some f) (s, log) =
     (s\<lparr>isUploading := False\<rparr>,
      log @ [SetIsUploading True, ReadAsDataURL f, ConsoleError, Alert UploadFailed,
             SetIsUploading False])"
  using assms by (simp add: handleUpload_def upload_try_def emit_pair)

lemma handleUpload_add_fails:
  assumes "file_type f \<in> set acceptedFileTypes" "file_size f \<le> MAX_FILE_SIZE_BYTES"
  shows "handleUpload (Inr url) (Inl e) docsRes (Some f) (s, log) =
     (s\<lparr>isUploading := False\<rparr>,
      log @ [SetIsUploading True, ReadAsDataURL f,
             AddDoc \<lparr>displayName = file_name f, dataUrl = url, size_f = file_size f,
                     type_f = file_type f, createdAt = ServerTimestamp\<rparr>,
             ConsoleError, Alert UploadFailed, SetIsUploading False])"
  using assms by (simp add: handleUpload_def upload_try_def emit_pair)

lemma handleUpload_reload_fails:
  assumes "file_type f \<in> set acceptedFileTypes" "file_size f \<le> MAX_FILE_SIZE_BYTES"
  shows "handleUpload (Inr url) (Inr newId) (Inl e) (Some f) (s, log) =
     (s\<lparr>isUploading := False, isLoading := True\<rparr>,
      log @ [SetIsUploading True, ReadAsDataURL f,
             AddDoc \<lparr>displayName = file_name f, dataUrl = url, size_f = file_size f,
                     type_f = file_type f, createdAt = ServerTimestamp\<rparr>,
             SetIsLoading True, GetDocs, ConsoleError, Alert UploadFailed,
             SetIsUploading False])"
  using assms by (simp add: handleUpload_def upload_try_def fetchFiles_def emit_pair)

lemma handleUpload_rejected:
  assumes "file_type f \<notin> set acceptedFileTypes \<or> MAX_FILE_SIZE_BYTES < file_size f"
  shows "handleUpload readRes addRes docsRes (Some f) (s, log) =
           (s, log @ [Alert (if file_type f \<notin> set acceptedFileTypes then InvalidFormat
                             else TooLarge)])"
proof (cases "file_type f \<in> set acceptedFileTypes")
  case True
  with assms show ?thesis by (simp add: handleUpload_too_large)
next
  case False
  then show ?thesis by (simp add: handleUpload_invalid_type)
qed

text \<open>
  Claim C1. A file whose MIME type is not one of the four accepted types, or
  whose size exceeds \<open>MAX_FILE_SIZE_BYTES\<close>, is rejected: the only thing
  \<open>handleUpload\<close> does is one \<open>alert\<close>, so the component's state (the file list
  included) is unchanged and no call to the store is made. The type is checked
  first: a file failing both checks gets the message about the format.
\<close>

theorem upload_rejected:
  assumes "file_type f \<notin> set acceptedFileTypes \<or> MAX_FILE_SIZE_BYTES < file_size f"
  shows "handleUpload readRes addRes docsRes (Some f) (s, log) =
           (s, log @ [Alert (if file_type f \<notin> set acceptedFileTypes then InvalidFormat
                             else TooLarge)]) \<and>
         files (fst (handleUpload readRes addRes docsRes (Some f) (s, log))) = files s \<and>
         filter is_store_call (snd (handleUpload readRes addRes docsRes (Some f) (s, log))) =
           filter is_store_call log"
  by (simp add: handleUpload_rejected [OF assms])

text \<open>An 800000-byte text file fails both checks and is told about its format.\<close>

theorem upload_rejected_witness:
  "file_type \<lparr>file_name = ''notes.txt'', file_size = 800000, file_type = ''text/plain''\<rparr>
      \<notin> set acceptedFileTypes \<and>
   MAX_FILE_SIZE_BYTES < file_size \<lparr>file_name = ''notes.txt'', file_size = 800000, file_type = ''text/plain''\<rparr> \<and>
   handleUpload (Inr ''data:'') (Inr ''id1'') (Inr [])
     (Some \<lparr>file_name = ''notes.txt'', file_size = 800000, file_type = ''text/plain''\<rparr>)
     (\<lparr>files = [], isDragging = False, isUploading = False, isLoading = False,
       copiedUrlId = None, editingFile = None, newDisplayName = []\<rparr>, []) =
   (\<lparr>files = [], isDragging = False, isUploading = False, isLoading = False,
       copiedUrlId = None, editingFile = None, newDisplayName = []\<rparr>, [Alert InvalidFormat])"
proof -
  let ?f = "\<lparr>file_name = ''notes.txt'', file_size = 800000, file_type = ''text/plain''\<rparr>"
  have t: "file_type ?f \<notin> set acceptedFileTypes"
    by (simp add: acceptedFileTypes_def)
  have z: "MAX_FILE_SIZE_BYTES < file_size ?f"
    by (simp add: MAX_FILE_SIZE_BYTES_def)
  from t have "file_type ?f \<notin> set acceptedFileTypes \<or> MAX_FILE_SIZE_BYTES < file_size ?f" ..
  from upload_rejected [OF this] t z show ?thesis
    by simp
qed

text \<open>
  Claim C2. For a file that passes both checks, \<open>handleUpload\<close> first sets
  \<open>isUploading\<close>, then reads the file as a data URL, then (when the read
  succeeds) calls \<open>addDoc\<close> once with the file's name as \<open>displayName\<close>, the data
  URL, the file's size and type and the server-timestamp sentinel. When \<open>addDoc\<close>
  succeeds the list is replaced by the mapped reply of \<open>getDocs\<close>, whatever it was
  before, and \<open>isUploading\<close> is cleared. When the read, \<open>addDoc\<close> or \<open>getDocs\<close>
  fails, the failure alert is shown, \<open>isUploading\<close> is cleared and \<open>files\<close> is
  unchanged (after a failed \<open>getDocs\<close> the flag \<open>isLoading\<close> stays set).
\<close>

theorem upload_sequence:
  assumes "file_type f \<in> set acceptedFileTypes" and "file_size f \<le> MAX_FILE_SIZE_BYTES"
  shows
    "handleUpload (Inr url) (Inr newId) (Inr docs) (Some f) (s, log) =
       (s\<lparr>files := map with_id docs, isUploading := False, isLoading := False\<rparr>,
        log @ [SetIsUploading True, ReadAsDataURL f,
               AddDoc \<lparr>displayName = file_name f, dataUrl = url, size_f = file_size f,
                       type_f = file_type f, createdAt = ServerTimestamp\<rparr>,
               SetIsLoading True, GetDocs, SetFiles (map with_id docs), SetIsLoading False,
               SetIsUploading False]) \<and>
     handleUpload (Inl e) addRes docsRes (Some f) (s, log) =
       (s\<lparr>isUploading := False\<rparr>,
        log @ [SetIsUploading True, ReadAsDataURL f, ConsoleError, Alert UploadFailed,
               SetIsUploading False]) \<and>
     handleUpload (Inr url) (Inl e) docsRes (Some f) (s, log) =
       (s\<lparr>isUploading := False\<rparr>,
        log @ [SetIsUploading True, ReadAsDataURL f,
               AddDoc \<lparr>displayName = file_name f, dataUrl = url, size_f = file_size f,
                       type_f = file_type f, createdAt = ServerTimestamp\<rparr>,
               ConsoleError, Alert UploadFailed, SetIsUploading False]) \<and>
     handleUpload (Inr url) (Inr newId) (Inl e) (Some f) (s, log) =
       (s\<lparr>isUploading := False, isLoading := True\<rparr>,
        log @ [SetIsUploading True, ReadAsDataURL f,
               AddDoc \<lparr>displayName = file_name f, dataUrl = url, size_f = file_size f,
                       type_f = file_type f, createdAt = ServerTimestamp\<rparr>,
               SetIsLoading True, GetDocs, ConsoleError, Alert UploadFailed,
               SetIsUploading False])"
  by (simp only: handleUpload_success [OF assms] handleUpload_read_fails [OF assms]
        handleUpload_add_fails [OF assms] handleUpload_reload_fails [OF assms] simp_thms)

text \<open>A 200 KB PNG, uploaded with success and with a failing reload.\<close>

theorem upload_sequence_witness:
  "file_type photo \<in> set acceptedFileTypes \<and> file_size photo \<le> MAX_FILE_SIZE_BYTES \<and>
   handleUpload (Inr ''data:image/png;base64,AAAA'') (Inr ''id1'')
      (Inr [\<lparr>doc_id = ''id1'',
              doc_data = \<lparr>displayName = ''photo.png'', dataUrl = ''data:image/png;base64,AAAA'',
                          size_f = 204800, type_f = ''image/png'', createdAt = 7\<rparr>\<rparr>])
      (Some photo) (empty_uploader, []) =
     (empty_uploader\<lparr>files := [\<lparr>displayName = ''photo.png'',
                                     dataUrl = ''data:image/png;base64,AAAA'',
                                     size_f = 204800, type_f = ''image/png'', createdAt = 7,
                                     id_f = ''id1''\<rparr>]\<rparr>,
      [SetIsUploading True, ReadAsDataURL photo,
       AddDoc \<lparr>displayName = ''photo.png'', dataUrl = ''data:image/png;base64,AAAA'',
               size_f = 204800, type_f = ''image/png'', createdAt = ServerTimestamp\<rparr>,
       SetIsLoading True, GetDocs,
       SetFiles [\<lparr>displayName = ''photo.png'', dataUrl = ''data:image/png;base64,AAAA'',
                  size_f = 204800, type_f = ''image/png'', createdAt = 7, id_f = ''id1''\<rparr>],
       SetIsLoading False, SetIsUploading False]) \<and>
   handleUpload (Inr ''data:image/png;base64,AAAA'') (Inr ''id1'') (Inl (Exn ''unavailable''))
      (Some photo) (empty_uploader, []) =
     (empty_uploader\<lparr>isLoading := True\<rparr>,
      [SetIsUploading True, ReadAsDataURL photo,
       AddDoc \<lparr>displayName = ''photo.png'', dataUrl = ''data:image/png;base64,AAAA'',
               size_f = 204800, type_f = ''image/png'', createdAt = ServerTimestamp\<rparr>,
       SetIsLoading True, GetDocs, ConsoleError, Alert UploadFailed, SetIsUploading False])"
proof -
  have t: "file_type photo \<in> set acceptedFileTypes"
    by (simp add: photo_def acceptedFileTypes_def)
  have z: "file_size photo \<le> MAX_FILE_SIZE_BYTES"
    by (simp add: photo_def MAX_FILE_SIZE_BYTES_def)
  show ?thesis
    using t z upload_sequence [OF t z, of "''data:image/png;base64,AAAA''" "''id1''"
      "[\<lparr>doc_id = ''id1'',
              doc_data = \<lparr>displayName = ''photo.png'', dataUrl = ''data:image/png;base64,AAAA'',
                          size_f = 204800, type_f = ''image/png'', createdAt = 7\<rparr>\<rparr>]"
      empty_uploader "[]" "Exn ''unavailable''"]
    by (simp add: with_id_def photo_def empty_uploader_def)
qed

text \<open>
  Claim C10. The comparison with the ceiling is strict: a file of an accepted
  type with exactly \<open>750 * 1024\<close> bytes is uploaded, one with a byte more is
  rejected as too large.
\<close>

theorem ceiling_is_inclusive:
  assumes "file_type f \<in> set acceptedFileTypes"
  shows
    "handleUpload (Inr url) (Inr newId) (Inr docs) (Some (f\<lparr>file_size := 750 * 1024\<rparr>)) (s, log) =
       (s\<lparr>files := map with_id docs, isUploading := False, isLoading := False\<rparr>,
        log @ [SetIsUploading True, ReadAsDataURL (f\<lparr>file_size := 750 * 1024\<rparr>),
               AddDoc \<lparr>displayName = file_name f, dataUrl = url, size_f = 750 * 1024,
                       type_f = file_type f, createdAt = ServerTimestamp\<rparr>,
               SetIsLoading True, GetDocs, SetFiles (map with_id docs), SetIsLoading False,
               SetIsUploading False]) \<and>
     handleUpload readRes addRes docsRes (Some (f\<lparr>file_size := 750 * 1024 + 1\<rparr>)) (s, log) =
       (s, log @ [Alert TooLarge])"
proof -
  let ?ok = "f\<lparr>file_size := 750 * 1024\<rparr>"
  let ?big = "f\<lparr>file_size := 750 * 1024 + 1\<rparr>"
  have "file_type ?ok \<in> set acceptedFileTypes" "file_size ?ok \<le> MAX_FILE_SIZE_BYTES"
    using assms by (simp_all add: MAX_FILE_SIZE_BYTES_def)
  from handleUpload_success [OF this]
  have a: "handleUpload (Inr url) (Inr newId) (Inr docs) (Some ?ok) (s, log) =
       (s\<lparr>files := map with_id docs, isUploading := False, isLoading := False\<rparr>,
        log @ [SetIsUploading True, ReadAsDataURL ?ok,
               AddDoc \<lparr>displayName = file_name f, dataUrl = url, size_f = 750 * 1024,
                       type_f = file_type f, createdAt = ServerTimestamp\<rparr>,
               SetIsLoading True, GetDocs, SetFiles (map with_id docs), SetIsLoading False,
               SetIsUploading False])"
    by simp
  have "file_type ?big \<in> set acceptedFileTypes" "MAX_FILE_SIZE_BYTES < file_size ?big"
    using assms by (simp_all add: MAX_FILE_SIZE_BYTES_def)
  from handleUpload_too_large [OF this]
  have b: "handleUpload readRes addRes docsRes (Some ?big) (s, log) = (s, log @ [Alert TooLarge])" .
  from a b show ?thesis by (simp only: simp_thms)
qed

text \<open>The PNG, padded to 768000 and to 768001 bytes.\<close>

theorem ceiling_is_inclusive_witness:
  "file_type photo \<in> set acceptedFileTypes \<and>
   snd (handleUpload (Inr ''data:x'') (Inr ''id1'') (Inr []) (Some (photo\<lparr>file_size := 768000\<rparr>))
      (empty_uploader, [])) =
     [SetIsUploading True, ReadAsDataURL (photo\<lparr>file_size := 768000\<rparr>),
      AddDoc \<lparr>displayName = ''photo.png'', dataUrl = ''data:x'', size_f = 768000,
              type_f = ''image/png'', createdAt = ServerTimestamp\<rparr>,
      SetIsLoading True, GetDocs, SetFiles [], SetIsLoading False, SetIsUploading False] \<and>
   handleUpload (Inr ''data:x'') (Inr ''id1'') (Inr []) (Some (photo\<lparr>file_size := 768001\<rparr>))
      (empty_uploader, []) = (empty_uploader, [Alert TooLarge])"
proof -
  have t: "file_type photo \<in> set acceptedFileTypes"
    by (simp add: photo_def acceptedFileTypes_def)
  show ?thesis
    using t ceiling_is_inclusive [OF t, of "''data:x''" "''id1''" "[]" empty_uploader "[]"
        "Inr ''data:x''" "Inr ''id1''" "Inr []"]
    by (simp add: photo_def)
qed

section \<open>Rename and delete\<close>

lemma handleSaveEdit_blank:
  "editingFile s = Some ef \<Longrightarrow> trim (newDisplayName s) = [] \<Longrightarrow>
   handleSaveEdit updRes (s, log) = (s, log)"
  by (simp add: handleSaveEdit_def)

lemma handleSaveEdit_saved:
  "editingFile s = Some ef \<Longrightarrow> trim (newDisplayName s) \<noteq> [] \<Longrightarrow>
   handleSaveEdit (Inr u) (s, log) =
     (s\<lparr>files := map (\<lambda>f. if id_f f = id_f ef
                              then f\<lparr>displayName := trim (newDisplayName s)\<rparr> else f) (files s),
        editingFile := None, newDisplayName := []\<rparr>,
      log @ [UpdateDoc (id_f ef) (trim (newDisplayName s)),
             SetFiles (map (\<lambda>f. if id_f f = id_f ef
                                  then f\<lparr>displayName := trim (newDisplayName s)\<rparr> else f)
                           (files s)),
             SetEditingFile None, SetNewDisplayName []])"
  by (simp add: handleSaveEdit_def emit_pair Let_def)

lemma handleSaveEdit_failed:
  "editingFile s = Some ef \<Longrightarrow> trim (newDisplayName s) \<noteq> [] \<Longrightarrow>
   handleSaveEdit (Inl e) (s, log) =
     (s\<lparr>editingFile := None, newDisplayName := []\<rparr>,
      log @ [UpdateDoc (id_f ef) (trim (newDisplayName s)), ConsoleError, Alert RenameFailed,
             SetEditingFile None, SetNewDisplayName []])"
  by (simp add: handleSaveEdit_def emit_pair Let_def)

lemma commit_triggers:
  "onKeyDown ''Enter'' updRes w = handleSaveEdit updRes w"
  "onBlur updRes w = handleSaveEdit updRes w"
  by (simp_all add: onKeyDown_def onBlur_def)

text \<open>
  Claim C6. A commit of the rename (Enter or loss of focus, both
  \<open>handleSaveEdit\<close>) while a record is being edited: with a buffer that is empty
  after trimming nothing happens, the store is not called and the state is
  unchanged; otherwise \<open>updateDoc\<close> is called with the trimmed name and, when it
  succeeds, every listed record with the edited id gets the trimmed name and
  edit mode ends; when it fails, the failure alert is shown, edit mode ends and
  the list is unchanged.
\<close>

theorem rename_commit:
  assumes "editingFile s = Some ef"
  shows
    "onKeyDown ''Enter'' updRes (s, log) = handleSaveEdit updRes (s, log) \<and>
     onBlur updRes (s, log) = handleSaveEdit updRes (s, log) \<and>
     (trim (newDisplayName s) = [] \<longrightarrow> handleSaveEdit updRes (s, log) = (s, log)) \<and>
     (trim (newDisplayName s) \<noteq> [] \<longrightarrow>
        handleSaveEdit (Inr u) (s, log) =
          (s\<lparr>files := map (\<lambda>f. if id_f f = id_f ef
                                   then f\<lparr>displayName := trim (newDisplayName s)\<rparr> else f)
                            (files s),
             editingFile := None, newDisplayName := []\<rparr>,
           log @ [UpdateDoc (id_f ef) (trim (newDisplayName s)),
                  SetFiles (map (\<lambda>f. if id_f f = id_f ef
                                       then f\<lparr>displayName := trim (newDisplayName s)\<rparr> else f)
                                (files s)),
                  SetEditingFile None, SetNewDisplayName []]) \<and>
        handleSaveEdit (Inl e) (s, log) =
          (s\<lparr>editingFile := None, newDisplayName := []\<rparr>,
           log @ [UpdateDoc (id_f ef) (trim (newDisplayName s)), ConsoleError,
                  Alert RenameFailed, SetEditingFile None, SetNewDisplayName []]))"
  using assms
  by (simp add: commit_triggers handleSaveEdit_blank handleSaveEdit_saved handleSaveEdit_failed)

lemma trim_blank: "trim ''   '' = []"
  by (simp add: trim_def is_ws_def)

lemma trim_vacation: "trim '' vacation.png  '' = ''vacation.png''"
  by (simp add: trim_def is_ws_def)

text \<open>
  Renaming \<open>photo.png\<close>: a buffer of three spaces changes nothing; the buffer
  \<open>" vacation.png  "\<close> renames the record to \<open>vacation.png\<close>, or leaves the list
  alone when the store refuses.
\<close>

theorem rename_commit_witness:
  "editingFile (listed\<lparr>editingFile := Some recordA, newDisplayName := ''   ''\<rparr>) = Some recordA \<and>
   trim ''   '' = [] \<and>
   handleSaveEdit (Inr ()) (listed\<lparr>editingFile := Some recordA, newDisplayName := ''   ''\<rparr>, []) =
     (listed\<lparr>editingFile := Some recordA, newDisplayName := ''   ''\<rparr>, []) \<and>
   trim '' vacation.png  '' \<noteq> [] \<and>
   handleSaveEdit (Inr ())
       (listed\<lparr>editingFile := Some recordA, newDisplayName := '' vacation.png  ''\<rparr>, []) =
     (listed\<lparr>files := [recordA\<lparr>displayName := ''vacation.png''\<rparr>, recordB]\<rparr>,
      [UpdateDoc ''idA'' ''vacation.png'',
       SetFiles [recordA\<lparr>displayName := ''vacation.png''\<rparr>, recordB],
       SetEditingFile None, SetNewDisplayName []]) \<and>
   handleSaveEdit (Inl (Exn ''denied''))
       (listed\<lparr>editingFile := Some recordA, newDisplayName := '' vacation.png  ''\<rparr>, []) =
     (listed,
      [UpdateDoc ''idA'' ''vacation.png'', ConsoleError, Alert RenameFailed,
       SetEditingFile None, SetNewDisplayName []])"
proof -
  let ?blank = "listed\<lparr>editingFile := Some recordA, newDisplayName := ''   ''\<rparr>"
  let ?named = "listed\<lparr>editingFile := Some recordA, newDisplayName := '' vacation.png  ''\<rparr>"
  have b: "editingFile ?blank = Some recordA" by simp
  have n: "editingFile ?named = Some recordA" by simp
  have ids: "id_f recordA = ''idA''" "id_f recordB = ''idB''"
    by (simp_all add: recordA_def recordB_def)
  have fs: "files listed = [recordA, recordB]" "editingFile listed = None"
    "newDisplayName listed = []"
    by (simp_all add: listed_def empty_uploader_def)
  have l: "listed\<lparr>editingFile := None, newDisplayName := []\<rparr> = listed"
    by (simp add: listed_def empty_uploader_def)
  from rename_commit [OF b, of "Inr ()" "[]" "()" "Exn ''denied''"]
  have 1: "handleSaveEdit (Inr ()) (?blank, []) = (?blank, [])"
    by (simp add: trim_blank)
  from rename_commit [OF n, of "Inr ()" "[]" "()" "Exn ''denied''"]
  have 2: "handleSaveEdit (Inr ()) (?named, []) =
     (listed\<lparr>files := [recordA\<lparr>displayName := ''vacation.png''\<rparr>, recordB]\<rparr>,
      [UpdateDoc ''idA'' ''vacation.png'',
       SetFiles [recordA\<lparr>displayName := ''vacation.png''\<rparr>, recordB],
       SetEditingFile None, SetNewDisplayName []])"
    and 3: "handleSaveEdit (Inl (Exn ''denied'')) (?named, []) =
     (listed,
      [UpdateDoc ''idA'' ''vacation.png'', ConsoleError, Alert RenameFailed,
       SetEditingFile None, SetNewDisplayName []])"
    by (simp_all add: trim_vacation ids fs l)
  from b 1 2 3 show ?thesis
    by (simp add: trim_blank trim_vacation)
qed

lemma filter_other_ids:
  "distinct (map id_f xs) \<Longrightarrow> t \<in> set xs \<Longrightarrow>
   filter (\<lambda>f. id_f f \<noteq> id_f t) xs = remove1 t xs"
proof (induction xs)
  case Nil
  then show ?case by simp
next
  case (Cons x xs)
  show ?case
  proof (cases "x = t")
    case True
    with Cons.prems have nin: "id_f t \<notin> id_f ` set xs" by simp
    have "\<forall>f \<in> set xs. id_f f \<noteq> id_f t"
    proof
      fix f assume "f \<in> set xs"
      then have "id_f f \<in> id_f ` set xs" by (rule imageI)
      with nin show "id_f f \<noteq> id_f t" by auto
    qed
    then have "filter (\<lambda>f. id_f f \<noteq> id_f t) xs = xs" by (simp add: filter_id_conv)
    with True show ?thesis by simp
  next
    case False
    with Cons.prems have "t \<in> set xs" "id_f x \<noteq> id_f t" by auto
    with Cons False show ?thesis by simp
  qed
qed

lemma handleDelete_deleted:
  "handleDelete True (Inr u) fileToDelete (s, log) =
     (s\<lparr>files := filter (\<lambda>f. id_f f \<noteq> id_f fileToDelete) (files s)\<rparr>,
      log @ [Confirm (displayName fileToDelete), DeleteDoc (id_f fileToDelete),
             SetFiles (filter (\<lambda>f. id_f f \<noteq> id_f fileToDelete) (files s))])"
  by (simp add: handleDelete_def emit_pair)

lemma handleDelete_failed:
  "handleDelete True (Inl e) fileToDelete (s, log) =
     (s, log @ [Confirm (displayName fileToDelete), DeleteDoc (id_f fileToDelete),
                ConsoleError, Alert DeleteFailed])"
  by (simp add: handleDelete_def emit_pair)

text \<open>
  Claim C7. A confirmed delete of a listed record, the ids of the list being
  distinct as document ids are: when \<open>deleteDoc\<close> succeeds the new list is the
  old one with the target taken out, the other records kept as they are and in
  their order, and nothing else of the state changes; when \<open>deleteDoc\<close> fails,
  the failure alert is shown and the state, the list included, is unchanged.
\<close>

theorem delete_removes_target:
  assumes "fileToDelete \<in> set (files s)" and "distinct (map id_f (files s))"
  shows
    "handleDelete True (Inr u) fileToDelete (s, log) =
       (s\<lparr>files := remove1 fileToDelete (files s)\<rparr>,
        log @ [Confirm (displayName fileToDelete), DeleteDoc (id_f fileToDelete),
               SetFiles (remove1 fileToDelete (files s))]) \<and>
     set (remove1 fileToDelete (files s)) = set (files s) - {fileToDelete} \<and>
     length (remove1 fileToDelete (files s)) + 1 = length (files s) \<and>
     handleDelete True (Inl e) fileToDelete (s, log) =
       (s, log @ [Confirm (displayName fileToDelete), DeleteDoc (id_f fileToDelete),
                  ConsoleError, Alert DeleteFailed])"
proof -
  from assms(2) have d: "distinct (files s)" by (simp add: distinct_map)
  from assms(1) length_pos_if_in_set [OF assms(1)]
  have "length (remove1 fileToDelete (files s)) + 1 = length (files s)"
    by (simp add: length_remove1)
  with d show ?thesis
    by (simp add: handleDelete_deleted handleDelete_failed filter_other_ids [OF assms(2,1)])
qed

text \<open>Deleting \<open>photo.png\<close> from the list of two leaves \<open>manual.pdf\<close>.\<close>

theorem delete_removes_target_witness:
  "recordA \<in> set (files listed) \<and> distinct (map id_f (files listed)) \<and>
   handleDelete True (Inr ()) recordA (listed, []) =
     (listed\<lparr>files := [recordB]\<rparr>,
      [Confirm ''photo.png'', DeleteDoc ''idA'', SetFiles [recordB]]) \<and>
   handleDelete True (Inl (Exn ''denied'')) recordA (listed, []) =
     (listed, [Confirm ''photo.png'', DeleteDoc ''idA'', ConsoleError, Alert DeleteFailed])"
proof -
  have fs: "files listed = [recordA, recordB]"
    by (simp add: listed_def)
  have m: "recordA \<in> set (files listed)"
    by (simp add: fs)
  have d: "distinct (map id_f (files listed))"
    by (simp add: fs recordA_def recordB_def)
  have nm: "displayName recordA = ''photo.png''" "id_f recordA = ''idA''"
    by (simp_all add: recordA_def)
  from delete_removes_target [OF m d, of "()" "[]" "Exn ''denied''"] m d show ?thesis
    by (simp add: fs nm)
qed

section \<open>Share link\<close>

lemma handleCopyUrl_resolved:
  "handleCopyUrl origin pathname (Inr ()) f (s, log) =
     (s\<lparr>copiedUrlId := Some (id_f f)\<rparr>,
      log @ [WriteText (origin @ pathname @ ''#/view/'' @ id_f f),
             SetCopiedUrlId (Some (id_f f)), SetTimeout 2000])"
  by (simp add: handleCopyUrl_def emit_pair)

lemma handleCopyUrl_rejected:
  "handleCopyUrl origin pathname (Inl e) f (s, log) =
     (s, log @ [WriteText (origin @ pathname @ ''#/view/'' @ id_f f)])"
  by (simp add: handleCopyUrl_def emit_pair)

lemma copy_click_resolved:
  "copy_click origin pathname (Inr ()) f ((s, log), t) =
     ((s\<lparr>copiedUrlId := Some (id_f f)\<rparr>,
       log @ [WriteText (origin @ pathname @ ''#/view/'' @ id_f f),
              SetCopiedUrlId (Some (id_f f)), SetTimeout 2000]),
      t\<lparr>pending := pending t @ [clock t + 2000]\<rparr>)"
  by (simp add: copy_click_def handleCopyUrl_resolved)

lemma copy_click_rejected:
  "copy_click origin pathname (Inl e) f ((s, log), t) =
     ((s, log @ [WriteText (origin @ pathname @ ''#/view/'' @ id_f f)]), t)"
  by (simp add: copy_click_def handleCopyUrl_rejected)

lemma fold_clear:
  "fold (\<lambda>_. emit (SetCopiedUrlId None)) xs (s, log) =
     ((if xs = [] then s else s\<lparr>copiedUrlId := None\<rparr>),
      log @ replicate (length xs) (SetCopiedUrlId None))"
proof (induction xs arbitrary: s log)
  case Nil
  then show ?case by simp
next
  case (Cons x xs)
  then show ?case by (simp add: emit_pair replicate_append_same)
qed

lemma elapse_pair:
  "elapse d ((s, log), t) =
     (((if list_ex (\<lambda>x. x \<le> clock t + d) (pending t) then s\<lparr>copiedUrlId := None\<rparr> else s),
       log @ replicate (length (filter (\<lambda>x. x \<le> clock t + d) (pending t)))
               (SetCopiedUrlId None)),
      t\<lparr>clock := clock t + d, pending := filter (\<lambda>x. \<not> x \<le> clock t + d) (pending t)\<rparr>)"
  by (simp add: elapse_def Let_def fold_clear filter_empty_conv list_ex_iff)

text \<open>
  Claim C3, as the source has it. The indicator is one cell, so in every state
  at most one id shows it. A copy whose clipboard write resolves sets the
  indicator to the copied record and adds a timeout two seconds ahead; the
  timeouts already pending stay pending. A timeout clears the indicator
  whichever record it shows, so the indicator of the last copy is cleared as
  soon as any pending timeout falls due: two seconds after the copy when no
  earlier timeout was pending, and never later than that.
\<close>

theorem copied_indicator:
  "(copy_button v a = Copiado \<and> copy_button v b = Copiado \<longrightarrow> id_f a = id_f b) \<and>
   copiedUrlId (fst (fst (copy_click origin pathname (Inr ()) f ((s, log), t)))) =
     Some (id_f f) \<and>
   pending (snd (copy_click origin pathname (Inr ()) f ((s, log), t))) =
     pending t @ [clock t + 2000] \<and>
   copiedUrlId (fst (fst (elapse d (copy_click origin pathname (Inr ()) f ((s, log), t))))) =
     (if 2000 \<le> d \<or> list_ex (\<lambda>x. x \<le> clock t + d) (pending t) then None
      else Some (id_f f)) \<and>
   (pending t = [] \<longrightarrow>
      copiedUrlId (fst (fst (elapse d (copy_click origin pathname (Inr ()) f ((s, log), t))))) =
        (if d < 2000 then Some (id_f f) else None))"
proof -
  have one: "copy_button v a = Copiado \<and> copy_button v b = Copiado \<longrightarrow> id_f a = id_f b"
    by (auto simp add: copy_button_def split: if_splits)
  have later: "copiedUrlId (fst (fst (elapse d (copy_click origin pathname (Inr ()) f ((s, log), t))))) =
     (if 2000 \<le> d \<or> list_ex (\<lambda>x. x \<le> clock t + d) (pending t) then None
      else Some (id_f f))"
    by (auto simp add: copy_click_resolved elapse_pair)
  have alone: "pending t = [] \<longrightarrow>
      copiedUrlId (fst (fst (elapse d (copy_click origin pathname (Inr ()) f ((s, log), t))))) =
        (if d < 2000 then Some (id_f f) else None)"
    by (auto simp add: later)
  from one later alone show ?thesis
    by (simp add: copy_click_resolved)
qed

text \<open>
  A single copy of \<open>photo.png\<close> with no timeout pending: the indicator shows
  after 1999 ms and is gone after 2000 ms.
\<close>

theorem copied_indicator_witness:
  "copy_button (listed\<lparr>copiedUrlId := Some ''idA''\<rparr>) recordA = Copiado \<and>
   pending idle = [] \<and>
   copiedUrlId (fst (fst (elapse 1999
       (copy_click ''https://example.com'' ''/'' (Inr ()) recordA ((listed, []), idle))))) =
     Some ''idA'' \<and>
   copiedUrlId (fst (fst (elapse 2000
       (copy_click ''https://example.com'' ''/'' (Inr ()) recordA ((listed, []), idle))))) =
     None"
proof -
  have c: "copy_button (listed\<lparr>copiedUrlId := Some ''idA''\<rparr>) recordA = Copiado"
    by (simp add: copy_button_def recordA_def)
  have p: "pending idle = []"
    by (simp add: idle_def)
  have i: "id_f recordA = ''idA''"
    by (simp add: recordA_def)
  from copied_indicator [of "listed\<lparr>copiedUrlId := Some ''idA''\<rparr>" recordA recordA
      "''https://example.com''" "''/''" recordA listed "[]" idle 1999]
    copied_indicator [of "listed\<lparr>copiedUrlId := Some ''idA''\<rparr>" recordA recordA
      "''https://example.com''" "''/''" recordA listed "[]" idle 2000]
    c p i
  show ?thesis by simp
qed

text \<open>
  The claim as the specification words it, that a copy of a second record
  cancels the timeout of the first and that its indicator lasts two seconds,
  fails: \<open>photo.png\<close> is copied at time 0 and \<open>manual.pdf\<close> at 1500 ms. Both
  timeouts are then pending, and at 2000 ms the first one clears the indicator
  of \<open>manual.pdf\<close>, 500 ms after it was set.
\<close>

theorem copied_indicator_counterexample:
  "pending (snd (copy_click ''https://example.com'' ''/'' (Inr ()) recordB
      (elapse 1500
        (copy_click ''https://example.com'' ''/'' (Inr ()) recordA ((listed, []), idle))))) =
     [2000, 3500] \<and>
   copiedUrlId (fst (fst (copy_click ''https://example.com'' ''/'' (Inr ()) recordB
      (elapse 1500
        (copy_click ''https://example.com'' ''/'' (Inr ()) recordA ((listed, []), idle)))))) =
     Some ''idB'' \<and>
   copiedUrlId (fst (fst (elapse 500
      (copy_click ''https://example.com'' ''/'' (Inr ()) recordB
        (elapse 1500
          (copy_click ''https://example.com'' ''/'' (Inr ()) recordA ((listed, []), idle))))))) =
     None"
  by (simp add: copy_click_resolved elapse_pair idle_def recordA_def recordB_def)

section \<open>The viewer\<close>


lemma fetchFile_not_found:
  "fetchFile (Inr None) fileId (FileViewer_init, log) =
     (\<lparr>file_v = None, error_v = Some ''El archivo no fue encontrado.'', isLoading_v = False\<rparr>,
      log @ [GetDoc fileId])"
  by (simp add: fetchFile_def FileViewer_init_def)

lemma fetchFile_threw:
  "fetchFile (Inl e) fileId (FileViewer_init, log) =
     (\<lparr>file_v = None, error_v = Some ''Hubo un error al cargar el archivo.'',
       isLoading_v = False\<rparr>,
      log @ [GetDoc fileId, ConsoleError])"
  by (simp add: fetchFile_def FileViewer_init_def)

lemma fetchFile_not_loading:
  "isLoading_v (fst (fetchFile getRes fileId v)) = False"
  by (simp add: fetchFile_def Let_def)

lemma fetchFile_one_call:
  "filter is_store_call (snd (fetchFile getRes fileId (s, log))) =
     filter is_store_call log @ [GetDoc fileId]"
  by (simp add: fetchFile_def Let_def split: sum.split option.split)

lemma render_found:
  "FileViewer_render \<lparr>file_v = Some d, error_v = None, isLoading_v = False\<rparr> =
     (if startsWith (type_f d) ''image/'' then Img (dataUrl d) (displayName d)
      else if type_f d = ''application/pdf'' then Iframe (dataUrl d) (displayName d)
      else Null)"
  by (simp add: FileViewer_render_def truthy_def)

lemma render_error:
  "m \<noteq> [] \<Longrightarrow>
   FileViewer_render \<lparr>file_v = None, error_v = Some m, isLoading_v = False\<rparr> = ErrorScreen m ''/''"
  by (simp add: FileViewer_render_def truthy_def)

lemma render_not_spinner:
  "\<not> isLoading_v s \<Longrightarrow> FileViewer_render s \<noteq> SpinnerScreen"
  by (simp add: FileViewer_render_def split: option.split)

lemma fetchFile_found_any:
  "fetchFile (Inr (Some d)) fileId (s, log) =
     (s\<lparr>file_v := Some d, isLoading_v := False\<rparr>, log @ [GetDoc fileId])"
  by (simp add: fetchFile_def)

text \<open>
  What is shown once a record has been found, in any state of the component:
  an error held from an earlier fetch comes first.
\<close>

lemma render_after_found:
  "FileViewer_render (fst (fetchFile (Inr (Some d)) fileId (s, log))) =
     (if truthy (error_v s) then ErrorScreen (the (error_v s)) ''/''
      else if startsWith (type_f d) ''image/'' then Img (dataUrl d) (displayName d)
      else if type_f d = ''application/pdf'' then Iframe (dataUrl d) (displayName d)
      else Null)"
  by (simp add: fetchFile_found_any FileViewer_render_def)




text \<open>
  Claim C8. Mounting the viewer makes one call to the store, \<open>getDoc\<close> with the
  id, and whatever the reply the component is no longer loading afterwards and
  does not show the spinner. A reply without a document gives the error screen
  with the not-found message, a rejection gives the error screen with the
  generic message, and the two screens differ. The link of the error screen
  points to \<open>/\<close>, an address without fragment, for which the router mounts the
  uploader.
\<close>

theorem viewer_fetch_outcomes:
  "filter is_store_call (snd (fetchFile getRes fileId (FileViewer_init, log))) =
     filter is_store_call log @ [GetDoc fileId] \<and>
   isLoading_v (fst (fetchFile getRes fileId (FileViewer_init, log))) = False \<and>
   FileViewer_render (fst (fetchFile getRes fileId (FileViewer_init, log))) \<noteq> SpinnerScreen \<and>
   fetchFile (Inr None) fileId (FileViewer_init, log) =
     (\<lparr>file_v = None, error_v = Some ''El archivo no fue encontrado.'', isLoading_v = False\<rparr>,
      log @ [GetDoc fileId]) \<and>
   FileViewer_render (fst (fetchFile (Inr None) fileId (FileViewer_init, log))) =
     ErrorScreen ''El archivo no fue encontrado.'' ''/'' \<and>
   fetchFile (Inl e) fileId (FileViewer_init, log) =
     (\<lparr>file_v = None, error_v = Some ''Hubo un error al cargar el archivo.'',
       isLoading_v = False\<rparr>,
      log @ [GetDoc fileId, ConsoleError]) \<and>
   FileViewer_render (fst (fetchFile (Inl e) fileId (FileViewer_init, log))) =
     ErrorScreen ''Hubo un error al cargar el archivo.'' ''/'' \<and>
   FileViewer_render (fst (fetchFile (Inr None) fileId (FileViewer_init, log))) \<noteq>
     FileViewer_render (fst (fetchFile (Inl e) fileId (FileViewer_init, log))) \<and>
   App_render (handleHashChange [] route) = MountUploader"
proof -
  have "App_render (handleHashChange [] route) = MountUploader"
    by (simp add: handleHashChange_def App_render_def at_js_def truthy_def)
  moreover have "FileViewer_render (fst (fetchFile getRes fileId (FileViewer_init, log))) \<noteq> SpinnerScreen"
    by (rule render_not_spinner) (simp add: fetchFile_not_loading)
  moreover have "filter is_store_call (snd (fetchFile getRes fileId (FileViewer_init, log))) =
      filter is_store_call log @ [GetDoc fileId]"
    by (rule fetchFile_one_call)
  ultimately show ?thesis
    by (simp add: fetchFile_not_loading fetchFile_not_found fetchFile_threw render_error)
qed

text \<open>
  Claim C9. What the viewer shows for a found record whose type starts with
  \<open>image/\<close>, from any state of the component: the \<open>img\<close> whose source is the
  stored data URL when no error is held, as on the first fetch after mounting;
  but the error screen with the old message when an earlier fetch of the same
  component found no document or was rejected, since nothing resets \<open>error\<close> and
  it is tested before \<open>file\<close>. In that case the record is not rendered through
  the image branch. \<open>image/svg+xml\<close>, one of the accepted upload types, starts
  with \<open>image/\<close>.
\<close>

theorem image_record_after_fetch:
  assumes "startsWith (type_f d) ''image/''"
  shows "FileViewer_render (fst (fetchFile (Inr (Some d)) fileId (s, log))) =
           (if truthy (error_v s) then ErrorScreen (the (error_v s)) ''/''
            else Img (dataUrl d) (displayName d)) \<and>
         FileViewer_render (fst (fetchFile (Inr (Some d)) fileId (FileViewer_init, log))) =
           Img (dataUrl d) (displayName d) \<and>
         FileViewer_render (fst (fetchFile (Inr (Some d)) fileId
             (fetchFile (Inr None) otherId (FileViewer_init, log)))) =
           ErrorScreen ''El archivo no fue encontrado.'' ''/'' \<and>
         FileViewer_render (fst (fetchFile (Inr (Some d)) fileId
             (fetchFile (Inl e) otherId (FileViewer_init, log)))) =
           ErrorScreen ''Hubo un error al cargar el archivo.'' ''/'' \<and>
         ''image/svg+xml'' \<in> set acceptedFileTypes \<and>
         startsWith ''image/svg+xml'' ''image/''"
proof -
  have fresh: "\<not> truthy (error_v FileViewer_init)"
    by (simp add: FileViewer_init_def truthy_def)
  have any: "FileViewer_render (fst (fetchFile (Inr (Some d)) fileId (s, log))) =
           (if truthy (error_v s) then ErrorScreen (the (error_v s)) ''/''
            else Img (dataUrl d) (displayName d))" for s log
    using assms by (simp add: render_after_found)
  have first: "FileViewer_render (fst (fetchFile (Inr (Some d)) fileId (FileViewer_init, log))) =
           Img (dataUrl d) (displayName d)"
    using fresh by (simp add: any)
  have missing: "FileViewer_render (fst (fetchFile (Inr (Some d)) fileId
             (fetchFile (Inr None) otherId (FileViewer_init, log)))) =
           ErrorScreen ''El archivo no fue encontrado.'' ''/''"
    by (simp add: fetchFile_not_found any truthy_def)
  have rejected: "FileViewer_render (fst (fetchFile (Inr (Some d)) fileId
             (fetchFile (Inl e) otherId (FileViewer_init, log)))) =
           ErrorScreen ''Hubo un error al cargar el archivo.'' ''/''"
    by (simp add: fetchFile_threw any truthy_def)
  have svg: "''image/svg+xml'' \<in> set acceptedFileTypes" "startsWith ''image/svg+xml'' ''image/''"
    by (simp_all add: acceptedFileTypes_def startsWith_def)
  from any [of s log] first missing rejected svg show ?thesis
    by (simp only: simp_thms)
qed

text \<open>
  A stored SVG logo is shown as an image by a viewer that has just been
  mounted. A viewer that was first given an id without a document and then,
  by a change of the hash, the id of the logo, shows the not-found screen.
\<close>

theorem image_record_after_fetch_witness:
  "startsWith (type_f logo) ''image/'' \<and>
   FileViewer_render (fst (fetchFile (Inr (Some logo)) ''idD'' (FileViewer_init, []))) =
     Img ''data:image/svg+xml;base64,DDDD'' ''logo.svg'' \<and>
   fetchFile (Inr (Some logo)) ''idD'' (fetchFile (Inr None) ''idX'' (FileViewer_init, [])) =
     (\<lparr>file_v = Some logo, error_v = Some ''El archivo no fue encontrado.'',
       isLoading_v = False\<rparr>,
      [GetDoc ''idX'', GetDoc ''idD'']) \<and>
   FileViewer_render (fst (fetchFile (Inr (Some logo)) ''idD''
       (fetchFile (Inr None) ''idX'' (FileViewer_init, [])))) =
     ErrorScreen ''El archivo no fue encontrado.'' ''/''"
proof -
  have a: "startsWith (type_f logo) ''image/''"
    by (simp add: logo_def startsWith_def)
  have f: "dataUrl logo = ''data:image/svg+xml;base64,DDDD''" "displayName logo = ''logo.svg''"
    by (simp_all add: logo_def)
  have st: "fetchFile (Inr (Some logo)) ''idD'' (fetchFile (Inr None) ''idX'' (FileViewer_init, [])) =
     (\<lparr>file_v = Some logo, error_v = Some ''El archivo no fue encontrado.'',
       isLoading_v = False\<rparr>,
      [GetDoc ''idX'', GetDoc ''idD''])"
    by (simp add: fetchFile_not_found fetchFile_found_any)
  note t = image_record_after_fetch [OF a, of "''idD''" FileViewer_init "[]" "''idX''" "Exn ''x''"]
  from t have "FileViewer_render (fst (fetchFile (Inr (Some logo)) ''idD'' (FileViewer_init, []))) =
          Img (dataUrl logo) (displayName logo)"
    by blast
  then have first: "FileViewer_render (fst (fetchFile (Inr (Some logo)) ''idD'' (FileViewer_init, []))) =
          Img ''data:image/svg+xml;base64,DDDD'' ''logo.svg''"
    by (simp only: f)
  from t have stale: "FileViewer_render (fst (fetchFile (Inr (Some logo)) ''idD''
          (fetchFile (Inr None) ''idX'' (FileViewer_init, [])))) =
          ErrorScreen ''El archivo no fue encontrado.'' ''/''"
    by blast
  from a first st stale show ?thesis by blast
qed

section \<open>The router\<close>

lemma split_js_not_Nil: "split_js sep s \<noteq> []"
  by (induction s) (auto split: list.split)

text \<open>\<open>split_js\<close> cuts at every separator and nowhere else.\<close>

lemma split_js_no_sep: "p \<in> set (split_js sep s) \<Longrightarrow> sep \<notin> set p"
proof (induction s arbitrary: p)
  case Nil
  then show ?case by simp
next
  case (Cons c cs)
  then show ?case
    by (cases "split_js sep cs") (auto simp: split_js_not_Nil split: if_splits)
qed

lemma split_js_count: "length (split_js sep s) = Suc (length (filter (\<lambda>c. c = sep) s))"
proof (induction s)
  case Nil
  then show ?case by simp
next
  case (Cons c cs)
  then show ?case
    by (cases "split_js sep cs") (auto simp: split_js_not_Nil)
qed

lemma filter_nonempty_second:
  "filter (\<lambda>p. p \<noteq> []) xs = a # b # rest \<Longrightarrow> b \<noteq> []"
proof -
  assume h: "filter (\<lambda>p. p \<noteq> []) xs = a # b # rest"
  have "b \<in> set (filter (\<lambda>p. p \<noteq> []) xs)" by (simp add: h)
  then show ?thesis by simp
qed

lemma handleHashChange_cases:
  "handleHashChange h old =
     (case filter (\<lambda>p. p \<noteq> []) (split_js CHR ''/'' (drop 1 h)) of
        a # b # rest \<Rightarrow>
          if a = ''view'' then \<lparr>path = ''view'', route_id = Some b\<rparr>
          else \<lparr>path = ''home'', route_id = None\<rparr>
      | _ \<Rightarrow> \<lparr>path = ''home'', route_id = None\<rparr>)"
  by (auto simp add: handleHashChange_def Let_def at_js_def truthy_def
        dest: filter_nonempty_second split: list.split)

lemma App_render_cases:
  "App_render (handleHashChange h old) =
     (case filter (\<lambda>p. p \<noteq> []) (split_js CHR ''/'' (drop 1 h)) of
        a # b # rest \<Rightarrow> if a = ''view'' then MountFileViewer b else MountUploader
      | _ \<Rightarrow> MountUploader)"
  by (auto simp add: handleHashChange_cases App_render_def truthy_def
        dest: filter_nonempty_second split: list.split)

lemma route_examples:
  "handleHashChange ''#/view/abc123'' old = \<lparr>path = ''view'', route_id = Some ''abc123''\<rparr>"
  "handleHashChange ''#/view/'' old = \<lparr>path = ''home'', route_id = None\<rparr>"
  "handleHashChange ''#/'' old = \<lparr>path = ''home'', route_id = None\<rparr>"
  "handleHashChange ''#'' old = \<lparr>path = ''home'', route_id = None\<rparr>"
  "handleHashChange [] old = \<lparr>path = ''home'', route_id = None\<rparr>"
  by (simp_all add: handleHashChange_cases)

text \<open>
  Claim C5. The route is a function of \<open>window.location.hash\<close> alone (the
  previous route is ignored): with the text after \<open>#\<close> split at \<open>/\<close> and the empty
  pieces dropped, it is \<open>(view, b)\<close> when there are at least two pieces \<open>a\<close>, \<open>b\<close>
  and \<open>a\<close> is \<open>view\<close>, and \<open>(home, null)\<close> otherwise; the application mounts the
  viewer with id \<open>b\<close> in the first case and the uploader in the second. So
  \<open>#/view/abc123\<close> shows the viewer for \<open>abc123\<close>, and \<open>#/view/\<close>, \<open>#/\<close>, \<open>#\<close> and
  the empty hash show the uploader.
\<close>

theorem route_of_fragment:
  "handleHashChange h old =
     (case filter (\<lambda>p. p \<noteq> []) (split_js CHR ''/'' (drop 1 h)) of
        a # b # rest \<Rightarrow>
          if a = ''view'' then \<lparr>path = ''view'', route_id = Some b\<rparr>
          else \<lparr>path = ''home'', route_id = None\<rparr>
      | _ \<Rightarrow> \<lparr>path = ''home'', route_id = None\<rparr>) \<and>
   App_render (handleHashChange h old) =
     (case filter (\<lambda>p. p \<noteq> []) (split_js CHR ''/'' (drop 1 h)) of
        a # b # rest \<Rightarrow> if a = ''view'' then MountFileViewer b else MountUploader
      | _ \<Rightarrow> MountUploader) \<and>
   handleHashChange ''#/view/abc123'' old = \<lparr>path = ''view'', route_id = Some ''abc123''\<rparr> \<and>
   App_render (handleHashChange ''#/view/abc123'' old) = MountFileViewer ''abc123'' \<and>
   handleHashChange ''#/view/'' old = \<lparr>path = ''home'', route_id = None\<rparr> \<and>
   App_render (handleHashChange ''#/view/'' old) = MountUploader \<and>
   handleHashChange ''#/'' old = \<lparr>path = ''home'', route_id = None\<rparr> \<and>
   App_render (handleHashChange ''#/'' old) = MountUploader \<and>
   handleHashChange ''#'' old = \<lparr>path = ''home'', route_id = None\<rparr> \<and>
   handleHashChange [] old = \<lparr>path = ''home'', route_id = None\<rparr> \<and>
   App_render (handleHashChange [] old) = MountUploader"
proof -
  have "App_render (handleHashChange ''#/view/abc123'' old) = MountFileViewer ''abc123''"
    "App_render (handleHashChange ''#/view/'' old) = MountUploader"
    "App_render (handleHashChange ''#/'' old) = MountUploader"
    "App_render (handleHashChange [] old) = MountUploader"
    by (simp_all add: route_examples App_render_def truthy_def)
  with handleHashChange_cases [of h old] App_render_cases [of h old] show ?thesis
    by (simp only: route_examples simp_thms)
qed

end
